theory Spec2Isabelle
  imports Complex_Main
begin

section \<open>Numbers and strings of the source\<close>

text \<open>
  The program is TypeScript. A JavaScript \<open>number\<close> is modelled as a \<^typ>\<open>real\<close>: the
  arithmetic of the source is read as exact arithmetic, so rounding of IEEE doubles is not
  part of the model. A JavaScript string is a \<^typ>\<open>string\<close>; characters outside ASCII
  are written as their UTF-8 bytes. An optional property (\<open>x?: number\<close>) is an
  \<^typ>\<open>'a option\<close>, \<open>undefined\<close> being \<^const>\<open>None\<close>.
\<close>

text \<open>\<open>a || b\<close> on an optional string: \<open>undefined\<close> and the empty string are falsy.\<close>

definition truthy :: "string option \<Rightarrow> bool" where
  "truthy v = (case v of None \<Rightarrow> False | Some s \<Rightarrow> s \<noteq> [])"

definition or_else :: "string option \<Rightarrow> string \<Rightarrow> string" where
  "or_else v d = (case v of None \<Rightarrow> d | Some s \<Rightarrow> if s = [] then d else s)"

text \<open>\<open>a ?? b\<close> on an optional number.\<close>

definition nullish :: "real option \<Rightarrow> real \<Rightarrow> real" where
  "nullish v d = (case v of None \<Rightarrow> d | Some r \<Rightarrow> r)"

text \<open>\<open>String.prototype.includes\<close>: the needle occurs as a contiguous block.\<close>

fun startsWith :: "string \<Rightarrow> string \<Rightarrow> bool" where
  "startsWith s [] = True"
| "startsWith [] (c # cs) = False"
| "startsWith (d # ds) (c # cs) = (d = c \<and> startsWith ds cs)"

fun str_includes :: "string \<Rightarrow> string \<Rightarrow> bool" where
  "str_includes [] needle = startsWith [] needle"
| "str_includes (d # ds) needle = (startsWith (d # ds) needle \<or> str_includes ds needle)"

text \<open>
  \<open>Number.prototype.toString\<close> on an integer (the value of \<open>Date.now()\<close>): decimal
  digits, most significant first, with a leading minus sign for a negative value.
\<close>

definition digit_char :: "nat \<Rightarrow> char" where
  "digit_char d = (if d = 0 then CHR ''0'' else if d = 1 then CHR ''1''
     else if d = 2 then CHR ''2'' else if d = 3 then CHR ''3''
     else if d = 4 then CHR ''4'' else if d = 5 then CHR ''5''
     else if d = 6 then CHR ''6'' else if d = 7 then CHR ''7''
     else if d = 8 then CHR ''8'' else CHR ''9'')"

function digits :: "nat \<Rightarrow> string" where
  "digits n = (if n < 10 then [digit_char n]
               else digits (n div 10) @ [digit_char (n mod 10)])"
  by pat_completeness auto
termination
  by (relation "measure (\<lambda>n. n)") auto

declare digits.simps [simp del]

definition toString :: "int \<Rightarrow> string" where
  "toString i = (if i < 0 then CHR ''-'' # digits (nat (- i)) else digits (nat i))"

section \<open>types.ts\<close>

datatype AppState = IDLE | UPLOADING | CROPPING | ANALYZING | PREVIEW
  | GENERATING_VIDEO | COMPLETED | ERROR

datatype AspectRatio = LANDSCAPE | PORTRAIT | SQUARE | VERTICAL

datatype FontStyle = Bold | Serif | Handwritten | Modern

datatype Position = Top | Bottom | Center | Split

text \<open>
  \<open>interface LayoutConfig\<close>. The fields \<open>x\<close>, \<open>y\<close>, \<open>scale\<close> and \<open>filter\<close> carry the
  prefix \<open>cfg_\<close>, since a record field is a global constant.
\<close>

record LayoutConfig =
  subtitle :: string
  textColor :: string
  shadowColor :: string
  fontStyle :: FontStyle
  position :: Position
  veoPrompt :: string
  cfg_x :: "real option"
  cfg_y :: "real option"
  subtitleX :: "real option"
  subtitleY :: "real option"
  cfg_scale :: "real option"
  titleBackgroundColor :: "string option"
  subtitleTextColor :: "string option"
  subtitleBackgroundColor :: "string option"
  cfg_filter :: "string option"
  fontFamily :: "string option"

datatype StickerType = Emoji | Text

text \<open>\<open>interface Sticker\<close>; the fields carry the prefix \<open>st_\<close> where the name is taken.\<close>

record Sticker =
  st_id :: string
  st_type :: StickerType
  content :: string
  st_x :: real
  st_y :: real
  st_scale :: real
  rotation :: real

section \<open>App.tsx: the session state and its handlers\<close>

text \<open>
  The \<open>useState\<close> cells of \<open>App\<close> that the handlers below read or write. Each handler
  runs against the state of the render it was created in and returns the next state.
\<close>

record App =
  appState :: AppState
  croppedImage :: string
  theme :: string
  stickers :: "Sticker list"
  activeFilter :: string
  layoutConfig :: "LayoutConfig option"
  statusMessage :: string
  videoUrl :: string
  activeTab_text :: bool

definition initialApp :: App where
  "initialApp =
     \<lparr> appState = IDLE, croppedImage = [], theme = [], stickers = [],
       activeFilter = ''none'', layoutConfig = None, statusMessage = [],
       videoUrl = [], activeTab_text = False \<rparr>"

text \<open>
  The body of the \<open>try\<close> block of \<open>handleGenerateLayout\<close> after the service has
  returned \<open>config\<close>: initial placement from the position hint, colour defaults.
\<close>

definition initY :: "Position \<Rightarrow> real" where
  "initY p = (if p = Top then 20 else if p = Bottom then 80
              else if p = Split then 15 else if p = Center then 50 else 50)"

definition initSubY :: "Position \<Rightarrow> real" where
  "initSubY p = (if p = Top then 30 else if p = Bottom then 90
                 else if p = Split then 85 else if p = Center then 65 else 65)"

definition seedLayout :: "string \<Rightarrow> LayoutConfig \<Rightarrow> LayoutConfig" where
  "seedLayout active config = config
     \<lparr> cfg_x := Some 50,
       cfg_y := Some (initY (position config)),
       subtitleX := Some 50,
       subtitleY := Some (initSubY (position config)),
       cfg_scale := Some 1,
       cfg_filter := Some active,
       titleBackgroundColor := Some (or_else (titleBackgroundColor config) ''transparent''),
       subtitleTextColor :=
         Some (if textColor config = ''#FFFFFF'' then ''#FFFFFF'' else shadowColor config),
       subtitleBackgroundColor :=
         Some (if textColor config = ''#FFFFFF'' then shadowColor config else ''#FFFFFF'') \<rparr>"

text \<open>
  \<open>handleGenerateLayout\<close>. The awaited call of the layout service is the parameter
  \<open>served\<close>: \<open>Inr config\<close> when it resolves, \<open>Inl message\<close> when it rejects. The status
  message of the \<open>catch\<close> branch is the UTF-8 text of the source.
\<close>

definition layoutFailedMessage :: string where
  "layoutFailedMessage =
     [CHR 0xE6, CHR 0x97, CHR 0xA0, CHR 0xE6, CHR 0xB3, CHR 0x95,
      CHR 0xE7, CHR 0x94, CHR 0x9F, CHR 0xE6, CHR 0x88, CHR 0x90,
      CHR 0xE5, CHR 0xB8, CHR 0x83, CHR 0xE5, CHR 0xB1, CHR 0x80]"

definition handleGenerateLayout :: "(string + LayoutConfig) \<Rightarrow> App \<Rightarrow> App" where
  "handleGenerateLayout served s =
     (if theme s = [] then s
      else (case served of
              Inr config \<Rightarrow>
                s \<lparr> activeTab_text := False,
                    layoutConfig := Some (seedLayout (activeFilter s) config),
                    appState := PREVIEW \<rparr>
            | Inl message \<Rightarrow>
                s \<lparr> activeTab_text := False,
                    statusMessage := layoutFailedMessage,
                    appState := ERROR \<rparr>))"

text \<open>
  \<open>handleAddSticker\<close>; \<open>now\<close> is the value \<open>Date.now()\<close> returns at the call, in
  milliseconds.
\<close>

definition newSticker :: "int \<Rightarrow> string \<Rightarrow> Sticker" where
  "newSticker now c =
     \<lparr> st_id = toString now, st_type = Emoji, content = c,
       st_x = 50, st_y = 50, st_scale = 1, rotation = 0 \<rparr>"

definition handleAddSticker :: "int \<Rightarrow> string \<Rightarrow> App \<Rightarrow> App" where
  "handleAddSticker now c s =
     (let s1 = (if appState s = COMPLETED then s \<lparr> appState := PREVIEW, videoUrl := [] \<rparr> else s)
      in s1 \<lparr> stickers := stickers s @ [newSticker now c] \<rparr>)"

text \<open>
  \<open>handleUpdateSticker\<close>: \<open>{ ...s, ...changes }\<close> on every sticker with the id. The
  callers in the source change the position (\<open>x\<close> and \<open>y\<close>) or the scale.
\<close>

datatype StickerChanges = ChangeXY real real | ChangeScale real

fun applyChanges :: "StickerChanges \<Rightarrow> Sticker \<Rightarrow> Sticker" where
  "applyChanges (ChangeXY nx ny) t = t \<lparr> st_x := nx, st_y := ny \<rparr>"
| "applyChanges (ChangeScale k) t = t \<lparr> st_scale := k \<rparr>"

definition updateStickers :: "string \<Rightarrow> StickerChanges \<Rightarrow> Sticker list \<Rightarrow> Sticker list" where
  "updateStickers i changes prev =
     map (\<lambda>t. if st_id t = i then applyChanges changes t else t) prev"

definition handleUpdateSticker :: "string \<Rightarrow> StickerChanges \<Rightarrow> App \<Rightarrow> App" where
  "handleUpdateSticker i changes s = s \<lparr> stickers := updateStickers i changes (stickers s) \<rparr>"

definition handleRemoveSticker :: "string \<Rightarrow> App \<Rightarrow> App" where
  "handleRemoveSticker i s = s \<lparr> stickers := filter (\<lambda>t. st_id t \<noteq> i) (stickers s) \<rparr>"




text \<open>A run of add-sticker clicks, each with the clock reading and the preset it carries.\<close>

fun addStickers :: "(int \<times> string) list \<Rightarrow> App \<Rightarrow> App" where
  "addStickers [] s = s"
| "addStickers ((now, c) # rest) s = addStickers rest (handleAddSticker now c s)"

section \<open>The drag controllers: StickerOverlay.tsx and LayoutEditorOverlay.tsx\<close>

text \<open>
  A pointer event carries the client coordinates; \<open>getBoundingClientRect()\<close> of the
  overlay's container gives its rendered width and height. A ref that is \<open>null\<close> is
  \<^const>\<open>None\<close>. A rendered container has a positive width and height; a division by a
  zero width, which gives an infinity or NaN in JavaScript, is outside this model.
\<close>

record PointerEvent =
  clientX :: real
  clientY :: real

record DOMRect =
  rect_width :: real
  rect_height :: real

record StickerDrag =
  sd_id :: string
  sd_startX :: real
  sd_startY :: real
  sd_initX :: real
  sd_initY :: real



definition StickerOverlay_handlePointerUp :: "StickerDrag option \<Rightarrow> StickerDrag option" where
  "StickerOverlay_handlePointerUp dragRef = None"

text \<open>The scale buttons of a sticker: step 0.1, kept within 0.2 and 5.\<close>

definition scaleDown :: "Sticker \<Rightarrow> App \<Rightarrow> App" where
  "scaleDown sticker s =
     handleUpdateSticker (st_id sticker) (ChangeScale (max 0.2 (st_scale sticker - 0.1))) s"

definition scaleUp :: "Sticker \<Rightarrow> App \<Rightarrow> App" where
  "scaleUp sticker s =
     handleUpdateSticker (st_id sticker) (ChangeScale (min 5 (st_scale sticker + 0.1))) s"









section \<open>ImageCropper.tsx\<close>

definition RATIO_MULTIPLIERS :: "AspectRatio \<Rightarrow> real" where
  "RATIO_MULTIPLIERS r =
     (case r of VERTICAL \<Rightarrow> 3 / 4 | SQUARE \<Rightarrow> 1 / 1 | PORTRAIT \<Rightarrow> 9 / 16 | LANDSCAPE \<Rightarrow> 16 / 9)"

text \<open>The \<open>useState\<close> cells of \<open>ImageCropper\<close>.\<close>

record Cropper =
  scale :: real
  position_x :: real
  position_y :: real
  isDragging :: bool
  dragStart_x :: real
  dragStart_y :: real
  image_width :: real
  image_height :: real
  image_loaded :: bool

definition initialCropper :: Cropper where
  "initialCropper =
     \<lparr> scale = 1, position_x = 0, position_y = 0, isDragging = False,
       dragStart_x = 0, dragStart_y = 0,
       image_width = 0, image_height = 0, image_loaded = False \<rparr>"

text \<open>
  The events of the component. The zoom slider is an \<open>input type="range"\<close> with
  \<open>min="0.5" max="3" step="0.01"\<close>: the value it hands to \<open>onChange\<close> is
  \<open>0.5 + k \<times> 0.01\<close> for a step index \<open>k\<close> from 0 to 250, and the handler stores it
  as it is.
\<close>

datatype CropEvent =
    ResetEffect
  | ImageLoad real real
  | PointerDown PointerEvent
  | PointerMove PointerEvent
  | PointerUp
  | ZoomSlider nat

definition sliderValue :: "nat \<Rightarrow> real" where
  "sliderValue k = 0.5 + real k * 0.01"

fun cropStep :: "CropEvent \<Rightarrow> Cropper \<Rightarrow> Cropper" where
  "cropStep ResetEffect c = c \<lparr> position_x := 0, position_y := 0, scale := 1 \<rparr>"
| "cropStep (ImageLoad nw nh) c =
     c \<lparr> image_width := nw, image_height := nh, image_loaded := True \<rparr>"
| "cropStep (PointerDown e) c =
     c \<lparr> isDragging := True,
         dragStart_x := clientX e - position_x c,
         dragStart_y := clientY e - position_y c \<rparr>"
| "cropStep (PointerMove e) c =
     (if isDragging c
      then c \<lparr> position_x := clientX e - dragStart_x c,
               position_y := clientY e - dragStart_y c \<rparr>
      else c)"
| "cropStep PointerUp c = c \<lparr> isDragging := False \<rparr>"
| "cropStep (ZoomSlider k) c = c \<lparr> scale := sliderValue k \<rparr>"

inductive reachable :: "Cropper \<Rightarrow> bool" where
  reach_init: "reachable initialCropper"
| reach_reset: "reachable c \<Longrightarrow> reachable (cropStep ResetEffect c)"
| reach_load: "reachable c \<Longrightarrow> 0 < nw \<Longrightarrow> 0 < nh \<Longrightarrow> reachable (cropStep (ImageLoad nw nh) c)"
| reach_down: "reachable c \<Longrightarrow> reachable (cropStep (PointerDown e) c)"
| reach_move: "reachable c \<Longrightarrow> reachable (cropStep (PointerMove e) c)"
| reach_up: "reachable c \<Longrightarrow> reachable (cropStep PointerUp c)"
| reach_zoom: "reachable c \<Longrightarrow> k \<le> 250 \<Longrightarrow> reachable (cropStep (ZoomSlider k) c)"

text \<open>
  \<open>handleSave\<close>, step 2: the size of the image element before the transform scale,
  by the cover rule.
\<close>

definition renderedSize :: "real \<Rightarrow> real \<Rightarrow> real \<Rightarrow> real \<Rightarrow> real \<times> real" where
  "renderedSize cw ch nw nh =
     (let imgRatio = nw / nh; containerRatio = cw / ch
      in if imgRatio > containerRatio then (ch * imgRatio, ch) else (cw, cw / imgRatio))"

text \<open>\<open>mapDomToSource\<close>, the closure of \<open>handleSave\<close>, with the variables it captures.\<close>

definition mapDomToSource ::
  "real \<Rightarrow> real \<Rightarrow> real \<Rightarrow> real \<Rightarrow> Cropper \<Rightarrow> real \<Rightarrow> real \<Rightarrow> real \<times> real" where
  "mapDomToSource cw ch nw nh c dx dy =
     (let rw = fst (renderedSize cw ch nw nh);
          cx_dom = cw / 2;
          cy_dom = ch / 2;
          vx = dx - (cx_dom + position_x c);
          vy = dy - (cy_dom + position_y c);
          vx_unscaled = vx / scale c;
          vy_unscaled = vy / scale c;
          scaleX = nw / rw;
          sx_offset = vx_unscaled * scaleX;
          sy_offset = vy_unscaled * scaleX
      in (nw / 2 + sx_offset, nh / 2 + sy_offset))"

text \<open>
  What \<open>handleSave\<close> hands to the canvas: the source rectangle, the output size it
  computes, and the width and height attributes of the canvas. It returns early, with
  nothing drawn, when the container ref is \<open>null\<close> or the image has not loaded; the
  refs to the hidden canvas and to the image element are taken as set. The attributes are integers
  (an assignment of a positive number keeps its integer part); \<open>drawImage\<close> and
  \<open>fillRect\<close> receive the computed numbers.
\<close>

record CropOutput =
  sx :: real
  sy :: real
  sw :: real
  sh :: real
  outputWidth :: real
  outputHeight :: real
  canvas_width :: int
  canvas_height :: int

definition handleSave :: "DOMRect option \<Rightarrow> AspectRatio \<Rightarrow> Cropper \<Rightarrow> CropOutput option" where
  "handleSave container aspectRatio c =
     (case container of
        None \<Rightarrow> None
      | Some rect \<Rightarrow>
         (if image_loaded c then
            (let cw = rect_width rect; ch = rect_height rect;
                 nw = image_width c; nh = image_height c;
                 topLeft = mapDomToSource cw ch nw nh c 0 0;
                 bottomRight = mapDomToSource cw ch nw nh c cw ch;
                 ow = 1080;
                 oh = ow / RATIO_MULTIPLIERS aspectRatio
             in Some \<lparr> sx = fst topLeft, sy = snd topLeft,
                        sw = fst bottomRight - fst topLeft,
                        sh = snd bottomRight - snd topLeft,
                        outputWidth = ow, outputHeight = oh,
                        canvas_width = \<lfloor>ow\<rfloor>, canvas_height = \<lfloor>oh\<rfloor> \<rparr>)
          else None))"

section \<open>layoutService.ts\<close>

text \<open>
  The object the generation call answers with (its response schema), and the two ways the
  body of the \<open>try\<close> block ends: it returns the parsed object, or something in it throws
  an error, whose \<open>message\<close> may be missing.
\<close>

record LayoutJson =
  json_subtitle :: string
  json_textColor :: string
  json_shadowColor :: string
  json_position :: Position
  json_fontStyle :: FontStyle
  json_titleBackgroundColor :: "string option"
  json_veoPrompt :: string

datatype ServiceCall = Returns LayoutJson | Throws "string option"

text \<open>
  \<open>window.aistudio\<close>, when it is there: what its two calls do. \<open>hasSelectedApiKey()\<close>
  resolves to a boolean or rejects; \<open>openSelectKey()\<close> resolves or rejects. An error is
  kept as its message. \<open>window.aistudio\<close> itself is an option, \<^const>\<open>None\<close> outside
  AI Studio.
\<close>

record AIStudio =
  hasSelectedApiKey :: "string + bool"
  openSelectKey :: "string option"

datatype Effect = OpenSelectKey

text \<open>
  \<open>ensureApiKey\<close>: the calls of \<open>openSelectKey\<close> it makes, and the error it throws,
  if one of the awaited calls rejects.
\<close>

definition ensureApiKey :: "AIStudio option \<Rightarrow> Effect list \<times> string option" where
  "ensureApiKey w =
     (case w of
        None \<Rightarrow> ([], None)
      | Some aistudio \<Rightarrow>
         (case hasSelectedApiKey aistudio of
            Inl err \<Rightarrow> ([], Some err)
          | Inr hasKey \<Rightarrow>
             if hasKey then ([], None) else ([OpenSelectKey], openSelectKey aistudio)))"

definition fontFamilyOf :: "FontStyle \<Rightarrow> string" where
  \<open>fontFamilyOf f =
     (if f = Serif then ''"Noto Serif SC", serif''
      else if f = Handwritten then ''"Ma Shan Zheng", cursive''
      else if f = Bold then ''"ZCOOL QingKe HuangYou", sans-serif''
      else if f = Modern then ''"Noto Sans SC", sans-serif''
      else ''"Microsoft YaHei", sans-serif'')\<close>

definition fromJson :: "LayoutJson \<Rightarrow> LayoutConfig" where
  "fromJson j =
     \<lparr> subtitle = json_subtitle j, textColor = json_textColor j,
       shadowColor = json_shadowColor j, fontStyle = json_fontStyle j,
       position = json_position j, veoPrompt = json_veoPrompt j,
       cfg_x = None, cfg_y = None, subtitleX = None, subtitleY = None, cfg_scale = None,
       titleBackgroundColor = json_titleBackgroundColor j,
       subtitleTextColor = None, subtitleBackgroundColor = None, cfg_filter = None,
       fontFamily = Some (fontFamilyOf (json_fontStyle j)) \<rparr>"

definition fallbackConfig :: LayoutConfig where
  \<open>fallbackConfig =
     \<lparr> subtitle = [CHR 0xE7, CHR 0x88, CHR 0x86, CHR 0xE6, CHR 0xAC, CHR 0xBE,
                   CHR 0xE5, CHR 0xB0, CHR 0x81, CHR 0xE9, CHR 0x9D, CHR 0xA2],
       textColor = ''#FFFFFF'',
       shadowColor = ''#000000'',
       fontStyle = Bold,
       position = Bottom,
       veoPrompt = ''Cinematic slow motion, keep text static.'',
       cfg_x = None, cfg_y = None, subtitleX = None, subtitleY = None, cfg_scale = None,
       titleBackgroundColor = None,
       subtitleTextColor = None, subtitleBackgroundColor = None, cfg_filter = None,
       fontFamily = Some ''"Microsoft YaHei", sans-serif'' \<rparr>\<close>

text \<open>The test of the \<open>catch\<close> block for an error about the API key.\<close>

definition isApiKeyError :: "string option \<Rightarrow> bool" where
  "isApiKeyError message =
     (case message of
        None \<Rightarrow> False
      | Some m \<Rightarrow> m \<noteq> [] \<and>
          (str_includes m ''Requested entity was not found''
           \<or> str_includes m ''API key not valid''
           \<or> str_includes m ''403''))"

text \<open>
  \<open>generateLayoutConfig\<close>: the calls of \<open>openSelectKey\<close> in order, and the outcome:
  \<open>Inl\<close> the message of the error it throws, \<open>Inr\<close> the config it returns.
  \<open>ensureApiKey()\<close> and \<open>getClient()\<close> run before the \<open>try\<close> block, so an error of
  theirs leaves the function as it is; \<open>client\<close> is the error the constructor of the
  client throws, if it throws. Inside the \<open>catch\<close> block the awaited \<open>openSelectKey()\<close>
  can reject as well, and then its error is the one thrown.
\<close>

definition generateLayoutConfig ::
  "AIStudio option \<Rightarrow> string option \<Rightarrow> ServiceCall \<Rightarrow> Effect list \<times> (string + LayoutConfig)" where
  "generateLayoutConfig w client call =
     (case ensureApiKey w of
        (effects, Some err) \<Rightarrow> (effects, Inl err)
      | (effects, None) \<Rightarrow>
         (case client of
            Some err \<Rightarrow> (effects, Inl err)
          | None \<Rightarrow>
             (case call of
                Returns j \<Rightarrow> (effects, Inr (fromJson j))
              | Throws message \<Rightarrow>
                 (if isApiKeyError message then
                    (case w of
                       None \<Rightarrow> (effects, Inr fallbackConfig)
                     | Some aistudio \<Rightarrow>
                         (effects @ [OpenSelectKey],
                          (case openSelectKey aistudio of
                             Some err \<Rightarrow> Inl err
                           | None \<Rightarrow> Inl ''API Key required. Please select a key.'')))
                  else (effects, Inr fallbackConfig)))))"

section \<open>CoverCanvas.tsx: the 2D canvas\<close>

text \<open>
  The canvas is modelled by what the source can set and what it draws. The drawing state
  holds the properties the component assigns and the transform as the list of the
  translations, scalings and rotations applied to it. The bitmap is the list of the drawing
  calls since it was last cleared, each with the drawing state in force at the call: the
  pixels are a function of that list. A font is kept as the parts of the template string
  that builds it (weight, size in pixels, family).
\<close>

record Font =
  font_weight :: "string option"
  font_size :: real
  font_family :: string

datatype Paint = Colour string | LinearGradient real real real real "(real \<times> string) list"

datatype Transform = Translate real real | ScaleBy real real | Rotate real

record DrawingState =
  filter_css :: string
  fillStyle :: Paint
  strokeStyle :: Paint
  font :: Font
  textAlign :: string
  textBaseline :: string
  lineJoin :: string
  miterLimit :: real
  lineWidth :: real
  transform :: "Transform list"

datatype PathSeg =
    MoveTo real real
  | LineTo real real
  | QuadraticCurveTo real real real real
  | ClosePath

datatype Draw =
    DrawImage string real real real real
  | FillRect real real real real
  | Fill "PathSeg list"
  | StrokeText string real real
  | FillText string real real

record Canvas =
  context2d :: bool
  width_attr :: real
  height_attr :: real
  state :: DrawingState
  saved :: "DrawingState list"
  path :: "PathSeg list"
  painted :: "(DrawingState \<times> Draw) list"

definition defaultState :: DrawingState where
  "defaultState =
     \<lparr> filter_css = ''none'', fillStyle = Colour ''#000000'', strokeStyle = Colour ''#000000'',
       font = \<lparr> font_weight = None, font_size = 10, font_family = ''sans-serif'' \<rparr>,
       textAlign = ''start'', textBaseline = ''alphabetic'', lineJoin = ''miter'',
       miterLimit = 10, lineWidth = 1, transform = [] \<rparr>"



definition save :: "Canvas \<Rightarrow> Canvas" where
  "save c = c \<lparr> saved := state c # saved c \<rparr>"

definition restore :: "Canvas \<Rightarrow> Canvas" where
  "restore c = (case saved c of [] \<Rightarrow> c | st # rest \<Rightarrow> c \<lparr> state := st, saved := rest \<rparr>)"


definition setFillStyle :: "Paint \<Rightarrow> Canvas \<Rightarrow> Canvas" where
  "setFillStyle v c = c \<lparr> state := (state c) \<lparr> fillStyle := v \<rparr> \<rparr>"

definition setStrokeStyle :: "Paint \<Rightarrow> Canvas \<Rightarrow> Canvas" where
  "setStrokeStyle v c = c \<lparr> state := (state c) \<lparr> strokeStyle := v \<rparr> \<rparr>"

definition setFont :: "Font \<Rightarrow> Canvas \<Rightarrow> Canvas" where
  "setFont v c = c \<lparr> state := (state c) \<lparr> font := v \<rparr> \<rparr>"

definition setTextAlign :: "string \<Rightarrow> Canvas \<Rightarrow> Canvas" where
  "setTextAlign v c = c \<lparr> state := (state c) \<lparr> textAlign := v \<rparr> \<rparr>"

definition setTextBaseline :: "string \<Rightarrow> Canvas \<Rightarrow> Canvas" where
  "setTextBaseline v c = c \<lparr> state := (state c) \<lparr> textBaseline := v \<rparr> \<rparr>"

definition setLineJoin :: "string \<Rightarrow> Canvas \<Rightarrow> Canvas" where
  "setLineJoin v c = c \<lparr> state := (state c) \<lparr> lineJoin := v \<rparr> \<rparr>"

definition setMiterLimit :: "real \<Rightarrow> Canvas \<Rightarrow> Canvas" where
  "setMiterLimit v c = c \<lparr> state := (state c) \<lparr> miterLimit := v \<rparr> \<rparr>"

definition setLineWidth :: "real \<Rightarrow> Canvas \<Rightarrow> Canvas" where
  "setLineWidth v c = c \<lparr> state := (state c) \<lparr> lineWidth := v \<rparr> \<rparr>"

definition applyTransform :: "Transform \<Rightarrow> Canvas \<Rightarrow> Canvas" where
  "applyTransform t c = c \<lparr> state := (state c) \<lparr> transform := transform (state c) @ [t] \<rparr> \<rparr>"

definition paint :: "Draw \<Rightarrow> Canvas \<Rightarrow> Canvas" where
  "paint d c = c \<lparr> painted := painted c @ [(state c, d)] \<rparr>"

definition beginPath :: "Canvas \<Rightarrow> Canvas" where
  "beginPath c = c \<lparr> path := [] \<rparr>"

definition addSeg :: "PathSeg \<Rightarrow> Canvas \<Rightarrow> Canvas" where
  "addSeg g c = c \<lparr> path := path c @ [g] \<rparr>"

definition fill :: "Canvas \<Rightarrow> Canvas" where
  "fill c = paint (Fill (path c)) c"

text \<open>A block of statements runs them in order on the canvas.\<close>

definition run :: "(Canvas \<Rightarrow> Canvas) list \<Rightarrow> Canvas \<Rightarrow> Canvas" where
  "run stmts c = fold (\<lambda>stmt. stmt) stmts c"

text \<open>\<open>roundRect\<close>: the path it builds, and the function itself.\<close>

definition roundRectPath :: "real \<Rightarrow> real \<Rightarrow> real \<Rightarrow> real \<Rightarrow> real \<Rightarrow> PathSeg list" where
  "roundRectPath px py w h radius =
     [ MoveTo (px + radius) py,
       LineTo (px + w - radius) py,
       QuadraticCurveTo (px + w) py (px + w) (py + radius),
       LineTo (px + w) (py + h - radius),
       QuadraticCurveTo (px + w) (py + h) (px + w - radius) (py + h),
       LineTo (px + radius) (py + h),
       QuadraticCurveTo px (py + h) px (py + h - radius),
       LineTo px (py + radius),
       QuadraticCurveTo px py (px + radius) py,
       ClosePath ]"

definition roundRect :: "real \<Rightarrow> real \<Rightarrow> real \<Rightarrow> real \<Rightarrow> real \<Rightarrow> Canvas \<Rightarrow> Canvas" where
  "roundRect px py w h radius =
     run (beginPath # map addSeg (roundRectPath px py w h radius))"

section \<open>CoverCanvas.tsx: drawLayoutText\<close>

text \<open>The values \<open>drawLayoutText\<close> computes before it draws, named as in the source.\<close>

definition baseSize :: "LayoutConfig \<Rightarrow> real \<Rightarrow> real \<Rightarrow> real" where
  "baseSize config width height = min width height * 0.13 * nullish (cfg_scale config) 1"

definition subtitleSize :: "LayoutConfig \<Rightarrow> real \<Rightarrow> real \<Rightarrow> real" where
  "subtitleSize config width height = baseSize config width height * 0.45"

definition fontSettings :: "LayoutConfig \<Rightarrow> string \<times> string" where
  \<open>fontSettings config =
     (let fontName = or_else (fontFamily config) ''"Microsoft YaHei", sans-serif''
      in if str_includes fontName ''Ma Shan Zheng'' \<or> str_includes fontName ''ZCOOL''
         then (fontName, ''normal'')
         else if fontStyle config = Serif \<and> \<not> truthy (fontFamily config)
         then (''"Noto Serif SC", serif'', ''bold'')
         else if fontStyle config = Modern \<and> \<not> truthy (fontFamily config)
         then (''"Noto Sans SC", sans-serif'', ''700'')
         else (fontName, ''900''))\<close>

definition fontName :: "LayoutConfig \<Rightarrow> string" where
  "fontName config = fst (fontSettings config)"

definition fontWeight :: "LayoutConfig \<Rightarrow> string" where
  "fontWeight config = snd (fontSettings config)"

definition titlePos :: "LayoutConfig \<Rightarrow> real \<Rightarrow> real \<Rightarrow> real \<times> real" where
  "titlePos config width height =
     (case (cfg_x config, cfg_y config) of
        (Some px, Some py) \<Rightarrow> ((px / 100) * width, (py / 100) * height)
      | _ \<Rightarrow>
         (let safeAreaTop = height * 0.15; safeAreaBottom = height * 0.15;
              b = baseSize config width height
          in (width / 2,
              if position config = Top then safeAreaTop + b / 2
              else if position config = Bottom then height - safeAreaBottom - b * 0.8
              else if position config = Split then height * 0.15
              else height / 2)))"

definition subPos :: "LayoutConfig \<Rightarrow> real \<Rightarrow> real \<Rightarrow> real \<times> real" where
  "subPos config width height =
     (case (subtitleX config, subtitleY config) of
        (Some px, Some py) \<Rightarrow> ((px / 100) * width, (py / 100) * height)
      | _ \<Rightarrow>
         (fst (titlePos config width height),
          if position config = Split \<and> cfg_x config = None then height * 0.85
          else snd (titlePos config width height) + baseSize config width height * 1.2))"

definition subBgFinal :: "LayoutConfig \<Rightarrow> string" where
  "subBgFinal config =
     or_else (subtitleBackgroundColor config)
       (if textColor config = ''#FFFFFF'' then shadowColor config else ''#FFFFFF'')"

definition subTextFinal :: "LayoutConfig \<Rightarrow> string" where
  "subTextFinal config =
     or_else (subtitleTextColor config)
       (if textColor config = ''#FFFFFF'' then ''#FFFFFF'' else shadowColor config)"

definition titleFont :: "LayoutConfig \<Rightarrow> real \<Rightarrow> real \<Rightarrow> Font" where
  "titleFont config width height =
     \<lparr> font_weight = Some (fontWeight config), font_size = baseSize config width height,
       font_family = fontName config \<rparr>"

definition subtitleFont :: "LayoutConfig \<Rightarrow> real \<Rightarrow> real \<Rightarrow> Font" where
  "subtitleFont config width height =
     \<lparr> font_weight = Some (fontWeight config), font_size = subtitleSize config width height,
       font_family = fontName config \<rparr>"

text \<open>
  \<open>ctx.measureText(text).width\<close> depends on the fonts the browser has; it is the
  parameter \<open>measureText\<close>, a function of the font in force and the text.
\<close>

definition pillWidth :: "(Font \<Rightarrow> string \<Rightarrow> real) \<Rightarrow> LayoutConfig \<Rightarrow> real \<Rightarrow> real \<Rightarrow> real" where
  "pillWidth measureText config width height =
     (let pillPadding = subtitleSize config width height * 0.4
      in measureText (subtitleFont config width height) (subtitle config) + pillPadding * 2)"

definition pillHeight :: "LayoutConfig \<Rightarrow> real \<Rightarrow> real \<Rightarrow> real" where
  "pillHeight config width height = subtitleSize config width height * 1.6"

definition drawTitleBackground ::
  "(Font \<Rightarrow> string \<Rightarrow> real) \<Rightarrow> LayoutConfig \<Rightarrow> string \<Rightarrow> real \<Rightarrow> real \<Rightarrow> (Canvas \<Rightarrow> Canvas) list" where
  "drawTitleBackground measureText config title width height =
     (case titleBackgroundColor config of
        None \<Rightarrow> []
      | Some bg \<Rightarrow>
         (if bg \<noteq> [] \<and> bg \<noteq> ''transparent'' then
            (let b = baseSize config width height;
                 paddingX = b * 0.6;
                 bgWidth = measureText (titleFont config width height) title + paddingX * 2;
                 bgHeight = b * 1.6;
                 tx = fst (titlePos config width height);
                 ty = snd (titlePos config width height)
             in [ setFillStyle (Colour bg),
                  roundRect (tx - bgWidth / 2) (ty - bgHeight / 2) bgWidth bgHeight 16,
                  fill ])
          else []))"

definition drawLayoutText ::
  "(Font \<Rightarrow> string \<Rightarrow> real) \<Rightarrow> LayoutConfig \<Rightarrow> string \<Rightarrow> real \<Rightarrow> real \<Rightarrow> Canvas \<Rightarrow> Canvas" where
  "drawLayoutText measureText config title width height =
     (let b = baseSize config width height;
          tx = fst (titlePos config width height);
          ty = snd (titlePos config width height);
          sbx = fst (subPos config width height);
          sby = snd (subPos config width height);
          pw = pillWidth measureText config width height;
          ph = pillHeight config width height
      in run
        ([ setTextAlign ''center'',
           setTextBaseline ''middle'',
           setFont (titleFont config width height) ]
         @ drawTitleBackground measureText config title width height
         @ [ setLineJoin ''round'',
             setMiterLimit 2,
             setLineWidth (b * 0.08),
             setStrokeStyle (Colour (shadowColor config)),
             paint (StrokeText title tx ty),
             setFillStyle (Colour (textColor config)),
             paint (FillText title tx ty),
             setFont (subtitleFont config width height),
             setFillStyle (Colour ''rgba(0,0,0,0.3)''),
             roundRect (sbx - pw / 2 + 4) (sby - ph / 2 + 4) pw ph (ph / 2),
             fill ]
         @ (if subBgFinal config \<noteq> ''transparent''
            then [ setFillStyle (Colour (subBgFinal config)),
                   roundRect (sbx - pw / 2) (sby - ph / 2) pw ph (ph / 2),
                   fill ]
            else [])
         @ [ setFillStyle (Colour (subTextFinal config)),
             paint (FillText (subtitle config) sbx sby) ]))"

section \<open>CoverCanvas.tsx: the render effect\<close>

text \<open>The body of \<open>stickers.forEach\<close>, and the loop.\<close>

definition drawSticker :: "real \<Rightarrow> real \<Rightarrow> Sticker \<Rightarrow> Canvas \<Rightarrow> Canvas" where
  "drawSticker width height sticker =
     run ([ save,
            applyTransform (Translate ((st_x sticker / 100) * width) ((st_y sticker / 100) * height)),
            applyTransform (ScaleBy (st_scale sticker) (st_scale sticker)),
            applyTransform (Rotate ((rotation sticker * pi) / 180)) ]
          @ (if st_type sticker = Emoji
             then [ setFont \<lparr> font_weight = None, font_size = width * 0.15, font_family = ''serif'' \<rparr>,
                    setTextAlign ''center'',
                    setTextBaseline ''middle'',
                    paint (FillText (content sticker) 0 0) ]
             else [])
          @ [ restore ])"

primrec drawStickers :: "real \<Rightarrow> real \<Rightarrow> Sticker list \<Rightarrow> Canvas \<Rightarrow> Canvas" where
  "drawStickers width height [] c = c"
| "drawStickers width height (sticker # rest) c =
     drawStickers width height rest (drawSticker width height sticker c)"

record CoverCanvasProps =
  imageBase64 :: string
  title :: string
  layout :: "LayoutConfig option"
  width :: real
  height :: real
  stickerList :: "Sticker list"
  filter_prop :: "string option"









section \<open>Notions used to state the properties\<close>

text \<open>Reading a decimal numeral back, the inverse of \<^const>\<open>digits\<close>.\<close>

definition digit_val :: "char \<Rightarrow> nat" where
  "digit_val ch = (if ch = CHR ''0'' then 0 else if ch = CHR ''1'' then 1
     else if ch = CHR ''2'' then 2 else if ch = CHR ''3'' then 3
     else if ch = CHR ''4'' then 4 else if ch = CHR ''5'' then 5
     else if ch = CHR ''6'' then 6 else if ch = CHR ''7'' then 7
     else if ch = CHR ''8'' then 8 else 9)"

definition parseNat :: "string \<Rightarrow> nat" where
  "parseNat cs = foldl (\<lambda>a ch. 10 * a + digit_val ch) 0 cs"

text \<open>
  The minimum cover scale, in the words of the specification: the least scale at which the
  image, whose size at scale 1 is \<^const>\<open>renderedSize\<close>, is at least as wide and as high
  as the crop window. The source has no such function.
\<close>

definition spec_minCoverScale :: "real \<Rightarrow> real \<Rightarrow> real \<Rightarrow> real \<Rightarrow> real" where
  "spec_minCoverScale cw ch nw nh =
     max (cw / fst (renderedSize cw ch nw nh)) (ch / snd (renderedSize cw ch nw nh))"

text \<open>
  The subtitle layer, in the words of the specification: the drop-shadow pill in
  semi-transparent black, offset by 4 pixels on both axes; the background pill unless the
  effective background colour is \<open>transparent\<close>; the subtitle text. Each entry is the
  fill style in force and the drawing call.
\<close>

definition subtitleLayer ::
  "(Font \<Rightarrow> string \<Rightarrow> real) \<Rightarrow> LayoutConfig \<Rightarrow> real \<Rightarrow> real \<Rightarrow> (Paint \<times> Draw) list" where
  "subtitleLayer m config w h =
     (let sbx = fst (subPos config w h);
          sby = snd (subPos config w h);
          pw = pillWidth m config w h;
          ph = pillHeight config w h
      in [(Colour ''rgba(0,0,0,0.3)'',
           Fill (roundRectPath (sbx - pw / 2 + 4) (sby - ph / 2 + 4) pw ph (ph / 2)))]
         @ (if subBgFinal config = ''transparent'' then []
            else [(Colour (subBgFinal config),
                   Fill (roundRectPath (sbx - pw / 2) (sby - ph / 2) pw ph (ph / 2)))])
         @ [(Colour (subTextFinal config), FillText (subtitle config) sbx sby)])"

text \<open>
  A canvas element as the browser creates it, 300 by 150 with nothing drawn, and the same
  canvas after some earlier drawing has left a fill style, a transform, a saved state and
  a painted rectangle behind.
\<close>

definition freshCanvas :: Canvas where
  "freshCanvas =
     \<lparr> context2d = True, width_attr = 300, height_attr = 150, state = defaultState,
       saved = [], path = [], painted = [] \<rparr>"


text \<open>
  The drawing state of a sticker's glyph, in the words of the specification: the state
  before, translated to the sticker's position in percent of the canvas, scaled, rotated by
  the sticker's angle in radians, with a font of 0.15 times the canvas width and the text
  centred on the origin.
\<close>

definition stickerState :: "real \<Rightarrow> real \<Rightarrow> DrawingState \<Rightarrow> Sticker \<Rightarrow> DrawingState" where
  "stickerState w h st s =
     st \<lparr> font := \<lparr> font_weight = None, font_size = w * 0.15, font_family = ''serif'' \<rparr>,
          textAlign := ''center'', textBaseline := ''middle'',
          transform := transform st @
            [Translate ((st_x s / 100) * w) ((st_y s / 100) * h),
             ScaleBy (st_scale s) (st_scale s),
             Rotate ((rotation s * pi) / 180)] \<rparr>"




text \<open>A text measure for examples: every character as wide as the font size.\<close>

definition squareGlyphs :: "Font \<Rightarrow> string \<Rightarrow> real" where
  "squareGlyphs f s = real (length s) * font_size f"


section \<open>Decimal numerals are injective\<close>

lemma digit_val_digit_char: "d < 10 \<Longrightarrow> digit_val (digit_char d) = d"
  unfolding digit_val_def digit_char_def by auto

lemma digit_char_not_minus: "digit_char d \<noteq> CHR ''-''"
  unfolding digit_char_def by simp

lemma parseNat_snoc: "parseNat (cs @ [ch]) = 10 * parseNat cs + digit_val ch"
  unfolding parseNat_def by simp

lemma parseNat_digits: "parseNat (digits n) = n"
proof (induction n rule: digits.induct)
  case (1 n)
  show ?case
  proof (cases "n < 10")
    case True
    then show ?thesis
      by (simp add: digits.simps [of n] parseNat_def digit_val_digit_char)
  next
    case False
    with "1" have "parseNat (digits (n div 10)) = n div 10" by simp
    with False show ?thesis
      by (simp add: digits.simps [of n] parseNat_snoc digit_val_digit_char)
  qed
qed

lemma digits_no_minus: "CHR ''-'' \<notin> set (digits n)"
proof (induction n rule: digits.induct)
  case (1 n)
  show ?case
  proof (cases "n < 10")
    case True
    then show ?thesis
      using digit_char_not_minus [of n] by (simp add: digits.simps [of n])
  next
    case False
    with "1" have "CHR ''-'' \<notin> set (digits (n div 10))" by simp
    with False show ?thesis
      using digit_char_not_minus [of "n mod 10"] by (simp add: digits.simps [of n])
  qed
qed

lemma digits_inj: "digits a = digits b \<Longrightarrow> a = b"
  by (metis parseNat_digits)

lemma toString_inj: "toString a = toString b \<Longrightarrow> a = b"
proof -
  assume eq: "toString a = toString b"
  have neg_pos: False if "i < 0" "0 \<le> j" "toString i = toString j" for i j :: int
  proof -
    from that have "CHR ''-'' # digits (nat (- i)) = digits (nat j)"
      by (simp add: toString_def)
    then have "CHR ''-'' \<in> set (digits (nat j))"
      by (metis list.set_intros(1))
    then show False using digits_no_minus by blast
  qed
  consider "a < 0" "b < 0" | "a < 0" "0 \<le> b" | "0 \<le> a" "b < 0" | "0 \<le> a" "0 \<le> b"
    by linarith
  then show "a = b"
  proof cases
    case 1
    with eq have "digits (nat (- a)) = digits (nat (- b))" by (simp add: toString_def)
    then have "nat (- a) = nat (- b)" by (rule digits_inj)
    with 1 show ?thesis by linarith
  next
    case 2
    with eq neg_pos show ?thesis by blast
  next
    case 3
    with eq neg_pos [of b a] show ?thesis by simp
  next
    case 4
    with eq have "digits (nat a) = digits (nat b)" by (simp add: toString_def)
    then have "nat a = nat b" by (rule digits_inj)
    with 4 show ?thesis by linarith
  qed
qed

section \<open>Stickers and their ids\<close>

lemma stickers_addStickers:
  "stickers (addStickers ops s) = stickers s @ map (\<lambda>(now, c). newSticker now c) ops"
proof (induction ops arbitrary: s)
  case Nil
  show ?case by simp
next
  case (Cons o1 ops)
  obtain now c where o1: "o1 = (now, c)" by (cases o1)
  have "stickers (handleAddSticker now c s) = stickers s @ [newSticker now c]"
    by (simp add: handleAddSticker_def Let_def)
  with Cons.IH [of "handleAddSticker now c s"] o1 show ?case by simp
qed

lemma ids_addStickers:
  "map st_id (stickers (addStickers ops s)) =
     map st_id (stickers s) @ map (\<lambda>p. toString (fst p)) ops"
  by (simp add: stickers_addStickers newSticker_def case_prod_beta)

lemma distinct_ids_fresh:
  assumes "distinct (map fst ops)"
  shows "distinct (map (\<lambda>p. toString (fst p)) ops)"
proof -
  have "inj_on toString (set (map fst ops))"
    by (rule inj_onI) (rule toString_inj)
  with assms have "distinct (map toString (map fst ops))"
    by (simp only: distinct_map)
  then show ?thesis by (simp add: comp_def)
qed

lemma count_one_of_distinct:
  "distinct (map f xs) \<Longrightarrow> x \<in> set xs \<Longrightarrow> length (filter (\<lambda>t. f t = f x) xs) = 1"
proof (induction xs)
  case Nil
  then show ?case by simp
next
  case (Cons a xs)
  show ?case
  proof (cases "f a = f x")
    case True
    with Cons.prems have "\<forall>t \<in> set xs. f t \<noteq> f x" by (auto simp: image_iff)
    then have "filter (\<lambda>t. f t = f x) xs = []" by (simp add: filter_empty_conv)
    with True show ?thesis by simp
  next
    case False
    with Cons show ?thesis by auto
  qed
qed

lemma length_filter_neg:
  "length (filter (\<lambda>t. f t \<noteq> i) xs) + length (filter (\<lambda>t. f t = i) xs) = length xs"
  by (induction xs) auto

lemma update_one_of_distinct:
  assumes "distinct (map f xs)" and "i < length xs"
  shows "map (\<lambda>t. if f t = f (xs ! i) then g t else t) xs = xs[i := g (xs ! i)]"
proof (rule nth_equalityI)
  show "length (map (\<lambda>t. if f t = f (xs ! i) then g t else t) xs) = length (xs[i := g (xs ! i)])"
    by simp
next
  fix j
  assume "j < length (map (\<lambda>t. if f t = f (xs ! i) then g t else t) xs)"
  then have j: "j < length xs" by simp
  have same: "f (xs ! j) = f (xs ! i) \<longleftrightarrow> j = i"
    using assms j nth_eq_iff_index_eq [of "map f xs" j i] by simp
  show "map (\<lambda>t. if f t = f (xs ! i) then g t else t) xs ! j = xs[i := g (xs ! i)] ! j"
    using j assms(2) same by (simp add: nth_list_update)
qed

lemma remove_one_of_distinct:
  "distinct (map f xs) \<Longrightarrow> i < length xs \<Longrightarrow>
   filter (\<lambda>t. f t \<noteq> f (xs ! i)) xs = take i xs @ drop (Suc i) xs"
proof (induction xs arbitrary: i)
  case Nil
  then show ?case by simp
next
  case (Cons a xs)
  show ?case
  proof (cases i)
    case 0
    from Cons.prems have "\<forall>t \<in> set xs. f t \<noteq> f a" by (auto simp: image_iff)
    then have "filter (\<lambda>t. f t \<noteq> f a) xs = xs" by (simp add: filter_id_conv)
    with 0 show ?thesis by simp
  next
    case (Suc k)
    with Cons.prems have k: "k < length xs" and d: "distinct (map f xs)" by simp_all
    from Cons.prems k have "f a \<noteq> f (xs ! k)" by (auto simp: image_iff)
    with Suc Cons.IH [OF d k] show ?thesis by simp
  qed
qed

text \<open>
  C9, as the code has it: a sticker's id is the decimal text of the clock reading at the
  click. When the readings of a run of add-sticker clicks, started from an empty sticker
  list, are pairwise distinct, the ids in the list are pairwise distinct and every id in the
  list belongs to exactly one sticker. An update addressed by the id of the sticker at a
  place of the list changes the sticker at that place and no other, and a removal addressed
  by it takes that sticker out and leaves the others in their order.
\<close>

theorem sticker_ids_distinct_when_clock_distinct:
  assumes "distinct (map fst ops)" and "stickers s = []"
  shows "distinct (map st_id (stickers (addStickers ops s)))
    \<and> (\<forall>t \<in> set (stickers (addStickers ops s)).
          length (filter (\<lambda>u. st_id u = st_id t) (stickers (addStickers ops s))) = 1
        \<and> length (stickers (handleRemoveSticker (st_id t) (addStickers ops s)))
            + 1 = length (stickers (addStickers ops s)))
    \<and> (\<forall>i < length (stickers (addStickers ops s)).
          stickers (handleUpdateSticker (st_id (stickers (addStickers ops s) ! i)) changes
                      (addStickers ops s))
            = (stickers (addStickers ops s))
                [i := applyChanges changes (stickers (addStickers ops s) ! i)]
        \<and> stickers (handleRemoveSticker (st_id (stickers (addStickers ops s) ! i))
                      (addStickers ops s))
            = take i (stickers (addStickers ops s)) @ drop (Suc i) (stickers (addStickers ops s)))"
proof -
  let ?final = "stickers (addStickers ops s)"
  have d: "distinct (map st_id ?final)"
    using assms by (simp add: ids_addStickers distinct_ids_fresh)
  have one: "length (filter (\<lambda>u. st_id u = st_id t) ?final) = 1" if "t \<in> set ?final" for t
    using d that by (rule count_one_of_distinct)
  have rem: "length (stickers (handleRemoveSticker (st_id t) (addStickers ops s))) + 1
      = length ?final" if "t \<in> set ?final" for t
    using one [OF that] length_filter_neg [of st_id "st_id t" ?final]
    by (simp add: handleRemoveSticker_def)
  have upd: "stickers (handleUpdateSticker (st_id (?final ! i)) changes (addStickers ops s))
      = ?final [i := applyChanges changes (?final ! i)]" if "i < length ?final" for i
    using update_one_of_distinct [OF d that, of "applyChanges changes"]
    by (simp add: handleUpdateSticker_def updateStickers_def)
  have del: "stickers (handleRemoveSticker (st_id (?final ! i)) (addStickers ops s))
      = take i ?final @ drop (Suc i) ?final" if "i < length ?final" for i
    using remove_one_of_distinct [OF d that]
    by (simp add: handleRemoveSticker_def)
  from d one rem upd del show ?thesis by blast
qed

text \<open>
  Two clicks one millisecond apart, on the initial state of the application; the second
  sticker is moved, then removed.
\<close>

theorem sticker_ids_distinct_witness:
  "distinct (map fst [(1000 :: int, ''A''), (1001, ''B'')]) \<and> stickers initialApp = []
   \<and> map st_id (stickers (addStickers [(1000, ''A''), (1001, ''B'')] initialApp))
       = [''1000'', ''1001'']
   \<and> distinct (map st_id (stickers (addStickers [(1000, ''A''), (1001, ''B'')] initialApp)))
   \<and> length (stickers (handleRemoveSticker ''1000''
        (addStickers [(1000, ''A''), (1001, ''B'')] initialApp))) = 1
   \<and> map (\<lambda>t. (st_id t, st_x t, st_y t))
        (stickers (handleUpdateSticker ''1001'' (ChangeXY 75 50)
           (addStickers [(1000, ''A''), (1001, ''B'')] initialApp)))
       = [(''1000'', 50, 50), (''1001'', 75, 50)]
   \<and> map st_id (stickers (handleRemoveSticker ''1001''
        (addStickers [(1000, ''A''), (1001, ''B'')] initialApp))) = [''1000'']"
  using sticker_ids_distinct_when_clock_distinct
    [where ops = "[(1000, ''A''), (1001, ''B'')]" and s = initialApp and changes = "ChangeXY 75 50"]
  by (simp add: initialApp_def handleAddSticker_def handleRemoveSticker_def newSticker_def
        handleUpdateSticker_def updateStickers_def toString_def digits.simps digit_char_def)

text \<open>
  C9 as stated fails: two add-sticker clicks at the same clock reading give two stickers
  with the same id, and a removal addressed by that id takes both.
\<close>

theorem sticker_ids_collide_counterexample:
  "\<not> distinct (map st_id (stickers (addStickers [(1000, ''A''), (1000, ''B'')] initialApp)))
   \<and> length (stickers (addStickers [(1000, ''A''), (1000, ''B'')] initialApp)) = 2
   \<and> stickers (handleRemoveSticker (toString 1000)
        (addStickers [(1000, ''A''), (1000, ''B'')] initialApp)) = []"
  by (simp add: initialApp_def handleAddSticker_def handleRemoveSticker_def newSticker_def)

section \<open>Initial placement of a generated layout\<close>

text \<open>
  C8: when the layout service answers with a config whose position hint is \<open>p\<close>,
  \<open>handleGenerateLayout\<close> stores a config with title and subtitle at x = 50 and with
  (y, subtitleY) = (20, 30) for top, (80, 90) for bottom, (15, 85) for split and (50, 65)
  for center.
\<close>

theorem initial_placement_from_hint:
  assumes "theme s \<noteq> []"
  shows "map_option (\<lambda>c. (cfg_x c, cfg_y c, subtitleX c, subtitleY c))
           (layoutConfig (handleGenerateLayout (Inr (config \<lparr> position := p \<rparr>)) s))
         = Some (Some 50,
                 Some (case p of Top \<Rightarrow> 20 | Bottom \<Rightarrow> 80 | Split \<Rightarrow> 15 | Center \<Rightarrow> 50),
                 Some 50,
                 Some (case p of Top \<Rightarrow> 30 | Bottom \<Rightarrow> 90 | Split \<Rightarrow> 85 | Center \<Rightarrow> 65))"
  using assms
  by (cases p) (simp_all add: handleGenerateLayout_def seedLayout_def initY_def initSubY_def)

text \<open>Scenario B: the title "OOTD" and a config with the position hint "bottom".\<close>

theorem initial_placement_witness:
  "theme (initialApp \<lparr> theme := ''OOTD'' \<rparr>) \<noteq> []
   \<and> map_option (\<lambda>c. (cfg_x c, cfg_y c, subtitleX c, subtitleY c))
        (layoutConfig (handleGenerateLayout (Inr (fallbackConfig \<lparr> position := Bottom \<rparr>))
           (initialApp \<lparr> theme := ''OOTD'' \<rparr>)))
      = Some (Some 50, Some 80, Some 50, Some 90)"
  using initial_placement_from_hint
    [where s = "initialApp \<lparr> theme := ''OOTD'' \<rparr>" and config = fallbackConfig and p = Bottom]
  by (simp add: initialApp_def)

section \<open>Dragging in percentage space\<close>



section \<open>The cropper: cover rule and the source rectangle\<close>

lemma renderedSize_pos:
  assumes "0 < cw" "0 < ch" "0 < nw" "0 < nh"
  shows "0 < fst (renderedSize cw ch nw nh)" and "0 < snd (renderedSize cw ch nw nh)"
  using assms by (simp_all add: renderedSize_def Let_def)

lemma renderedSize_ratio:
  assumes "0 < cw" "0 < ch" "0 < nw" "0 < nh"
  shows "nw / fst (renderedSize cw ch nw nh)
         = (if nw / nh > cw / ch then nh / ch else nw / cw)"
  using assms by (simp add: renderedSize_def Let_def field_simps)

lemma renderedSize_covers:
  assumes "0 < cw" "0 < ch" "0 < nw" "0 < nh"
  shows "cw \<le> fst (renderedSize cw ch nw nh) \<and> ch \<le> snd (renderedSize cw ch nw nh)"
proof (cases "nw / nh > cw / ch")
  case True
  with assms have "cw * nh < ch * nw" by (simp add: field_simps)
  then have "cw < ch * (nw / nh)" using assms by (simp add: field_simps)
  with True show ?thesis by (simp add: renderedSize_def Let_def)
next
  case False
  with assms have "ch * nw \<le> cw * nh" by (simp add: field_simps)
  then have "ch \<le> cw / (nw / nh)" using assms by (simp add: field_simps)
  with False show ?thesis by (simp add: renderedSize_def Let_def)
qed

lemma spec_minCoverScale_one:
  assumes "0 < cw" "0 < ch" "0 < nw" "0 < nh"
  shows "spec_minCoverScale cw ch nw nh = 1"
proof (cases "nw / nh > cw / ch")
  case True
  with assms have "cw * nh < ch * nw" by (simp add: field_simps)
  then have "cw / (ch * (nw / nh)) \<le> 1" using assms by (simp add: field_simps)
  with True assms show ?thesis by (simp add: spec_minCoverScale_def renderedSize_def Let_def max_def)
next
  case False
  with assms have "ch * nw \<le> cw * nh" by (simp add: field_simps)
  then have "ch / (cw / (nw / nh)) \<le> 1" using assms by (simp add: field_simps)
  with False assms show ?thesis by (simp add: spec_minCoverScale_def renderedSize_def Let_def max_def)
qed

text \<open>
  C5: for a container and an image of positive sizes, with pan (0, 0) and scale 1, the
  container corners (0, 0) and (cw, ch) map to a source rectangle whose centre is
  (nw / 2, nh / 2) and whose size is that of the cover-fit crop: the full image height with
  the container's aspect ratio when the image is the wider one, the full image width with
  the container's aspect ratio otherwise. Its aspect ratio is cw / ch.
\<close>

theorem corners_map_to_centred_cover_crop:
  assumes "0 < cw" "0 < ch" "0 < nw" "0 < nh"
    and "scale c = 1" "position_x c = 0" "position_y c = 0"
  shows "(fst (mapDomToSource cw ch nw nh c 0 0) + fst (mapDomToSource cw ch nw nh c cw ch)) / 2 = nw / 2
    \<and> (snd (mapDomToSource cw ch nw nh c 0 0) + snd (mapDomToSource cw ch nw nh c cw ch)) / 2 = nh / 2
    \<and> (fst (mapDomToSource cw ch nw nh c cw ch) - fst (mapDomToSource cw ch nw nh c 0 0),
        snd (mapDomToSource cw ch nw nh c cw ch) - snd (mapDomToSource cw ch nw nh c 0 0))
        = (if nw / nh > cw / ch then (nh * (cw / ch), nh) else (nw, nw / (cw / ch)))
    \<and> (fst (mapDomToSource cw ch nw nh c cw ch) - fst (mapDomToSource cw ch nw nh c 0 0))
        / (snd (mapDomToSource cw ch nw nh c cw ch) - snd (mapDomToSource cw ch nw nh c 0 0))
        = cw / ch"
proof -
  define k where "k = nw / fst (renderedSize cw ch nw nh)"
  have k: "k = (if nw / nh > cw / ch then nh / ch else nw / cw)"
    unfolding k_def using assms(1-4) by (rule renderedSize_ratio)
  have kpos: "0 < k" using assms(1-4) by (simp add: k)
  have tl: "mapDomToSource cw ch nw nh c 0 0 = (nw / 2 - cw / 2 * k, nh / 2 - ch / 2 * k)"
    using assms(5-7) by (simp add: mapDomToSource_def Let_def k_def)
  have br: "mapDomToSource cw ch nw nh c cw ch = (nw / 2 + cw / 2 * k, nh / 2 + ch / 2 * k)"
    using assms(5-7) by (simp add: mapDomToSource_def Let_def k_def)
  have w: "nw / 2 + cw / 2 * k - (nw / 2 - cw / 2 * k) = cw * k" by (simp add: algebra_simps)
  have h: "nh / 2 + ch / 2 * k - (nh / 2 - ch / 2 * k) = ch * k" by (simp add: algebra_simps)
  have size: "(cw * k, ch * k) = (if nw / nh > cw / ch then (nh * (cw / ch), nh) else (nw, nw / (cw / ch)))"
    using assms(1-4) by (simp add: k field_simps)
  have ratio: "cw * k / (ch * k) = cw / ch"
    using kpos by simp
  have cx: "(nw / 2 - cw / 2 * k + (nw / 2 + cw / 2 * k)) / 2 = nw / 2" by simp
  have cy: "(nh / 2 - ch / 2 * k + (nh / 2 + ch / 2 * k)) / 2 = nh / 2" by simp
  show ?thesis
    unfolding tl br fst_conv snd_conv w h
    using size ratio cx cy by simp
qed

text \<open>
  Scenario A: a 2000 by 1000 image in a square window maps to the centre 1000 by 1000
  region, from (500, 0) to (1500, 1000).
\<close>

theorem corners_scenario_witness:
  "(0::real) < 300 \<and> (0::real) < 2000 \<and> (0::real) < 1000
   \<and> scale initialCropper = 1 \<and> position_x initialCropper = 0 \<and> position_y initialCropper = 0
   \<and> mapDomToSource 300 300 2000 1000 initialCropper 0 0 = (500, 0)
   \<and> mapDomToSource 300 300 2000 1000 initialCropper 300 300 = (1500, 1000)"
  using corners_map_to_centred_cover_crop [of 300 300 2000 1000 initialCropper]
  by (simp add: initialCropper_def mapDomToSource_def renderedSize_def Let_def)

section \<open>The cropper: size of the output\<close>

lemma output_height_values:
  "1080 / RATIO_MULTIPLIERS r
     = (case r of VERTICAL \<Rightarrow> 1440 | SQUARE \<Rightarrow> 1080 | PORTRAIT \<Rightarrow> 1920 | LANDSCAPE \<Rightarrow> 607.5)"
  by (cases r) (simp_all add: RATIO_MULTIPLIERS_def)

text \<open>
  C2, as the code has it: the output is drawn 1080 wide and 1080 / ratio high for every
  target ratio, that is 1440, 1080, 1920 and 607.5 high for 3:4, 1:1, 9:16 and 16:9, so
  the width over the height is the target ratio. The long edge is 1080 for 1:1 and 16:9
  only. For 3:4, 1:1 and 9:16 the canvas attributes are these numbers.
\<close>

theorem crop_output_width_1080_height_by_ratio:
  assumes "image_loaded c"
  shows "map_option (\<lambda>out. (outputWidth out, outputHeight out)) (handleSave (Some rect) r c)
           = Some (1080, 1080 / RATIO_MULTIPLIERS r)
    \<and> 1080 / RATIO_MULTIPLIERS r
        = (case r of VERTICAL \<Rightarrow> 1440 | SQUARE \<Rightarrow> 1080 | PORTRAIT \<Rightarrow> 1920 | LANDSCAPE \<Rightarrow> 607.5)
    \<and> 1080 / (1080 / RATIO_MULTIPLIERS r) = RATIO_MULTIPLIERS r
    \<and> (max 1080 (1080 / RATIO_MULTIPLIERS r) = 1080) = (r = SQUARE \<or> r = LANDSCAPE)
    \<and> (r \<noteq> LANDSCAPE \<longrightarrow>
          map_option (\<lambda>out. (real_of_int (canvas_width out), real_of_int (canvas_height out)))
            (handleSave (Some rect) r c)
          = Some (1080, 1080 / RATIO_MULTIPLIERS r))"
proof -
  have a: "map_option (\<lambda>out. (outputWidth out, outputHeight out)) (handleSave (Some rect) r c)
           = Some (1080, 1080 / RATIO_MULTIPLIERS r)"
    using assms by (simp add: handleSave_def Let_def)
  have b: "1080 / (1080 / RATIO_MULTIPLIERS r) = RATIO_MULTIPLIERS r"
    by (cases r) (simp_all add: RATIO_MULTIPLIERS_def)
  have c: "(max 1080 (1080 / RATIO_MULTIPLIERS r) = 1080) = (r = SQUARE \<or> r = LANDSCAPE)"
    by (cases r) (simp_all add: RATIO_MULTIPLIERS_def)
  have d: "map_option (\<lambda>out. (real_of_int (canvas_width out), real_of_int (canvas_height out)))
            (handleSave (Some rect) r c)
          = Some (1080, 1080 / RATIO_MULTIPLIERS r)" if "r \<noteq> LANDSCAPE"
    using assms that by (cases r) (simp_all add: handleSave_def Let_def RATIO_MULTIPLIERS_def)
  from a b c d output_height_values [of r] show ?thesis by simp
qed

text \<open>The ratio 3:4 on a loaded 2000 by 1000 image: a canvas 1080 by 1440.\<close>

theorem crop_output_witness:
  "image_loaded (cropStep (ImageLoad 2000 1000) initialCropper) \<and> VERTICAL \<noteq> LANDSCAPE
   \<and> map_option (\<lambda>out. (outputWidth out, outputHeight out, canvas_width out, canvas_height out))
        (handleSave (Some \<lparr> rect_width = 300, rect_height = 400 \<rparr>) VERTICAL
           (cropStep (ImageLoad 2000 1000) initialCropper))
      = Some (1080, 1440, 1080, 1440)"
  using crop_output_width_1080_height_by_ratio
    [where c = "cropStep (ImageLoad 2000 1000) initialCropper" and r = VERTICAL
       and rect = "\<lparr> rect_width = 300, rect_height = 400 \<rparr>"]
  by (simp add: handleSave_def Let_def RATIO_MULTIPLIERS_def initialCropper_def)

text \<open>
  C2 as stated fails: for the ratio 3:4 the long edge of the output canvas is 1440, the
  height, and not 1080.
\<close>

theorem crop_long_edge_counterexample:
  "map_option (\<lambda>out. max (canvas_width out) (canvas_height out))
     (handleSave (Some \<lparr> rect_width = 300, rect_height = 400 \<rparr>) VERTICAL
        (cropStep (ImageLoad 2000 1000) initialCropper))
   = Some 1440
   \<and> map_option (\<lambda>out. max (outputWidth out) (outputHeight out))
     (handleSave (Some \<lparr> rect_width = 300, rect_height = 400 \<rparr>) VERTICAL
        (cropStep (ImageLoad 2000 1000) initialCropper))
   \<noteq> Some 1080"
  by (simp add: handleSave_def Let_def RATIO_MULTIPLIERS_def initialCropper_def)

section \<open>The cropper: reachable states\<close>

lemma sliderValue_bounds: "k \<le> 250 \<Longrightarrow> 1 / 2 \<le> sliderValue k \<and> sliderValue k \<le> 3"
proof -
  assume "k \<le> 250"
  then have "real k \<le> 250" by simp
  then show ?thesis by (simp add: sliderValue_def)
qed

lemma reachable_scale_bounds: "reachable c \<Longrightarrow> 1 / 2 \<le> scale c \<and> scale c \<le> 3"
proof (induction rule: reachable.induct)
  case reach_init
  show ?case by (simp add: initialCropper_def)
next
  case (reach_zoom c k)
  then show ?case using sliderValue_bounds [of k] by simp
next
  case (reach_move c e)
  then show ?case by simp
qed simp_all

text \<open>
  C3, as the code has it: in every reachable state of the cropper the scale lies between
  0.5 and 3, the ends of the zoom slider. The reset puts the scale at 1 and the pan at
  (0, 0); 1 is the minimum cover scale: there the image at its rendered size is at least as
  wide and as high as the crop window. Nothing brings a scale below 1 back up to it.
\<close>

theorem scale_within_slider_range:
  assumes "reachable c" and "0 < cw" "0 < ch" "0 < nw" "0 < nh"
  shows "1 / 2 \<le> scale c \<and> scale c \<le> 3
    \<and> scale (cropStep ResetEffect c) = 1
    \<and> position_x (cropStep ResetEffect c) = 0
    \<and> position_y (cropStep ResetEffect c) = 0
    \<and> spec_minCoverScale cw ch nw nh = 1
    \<and> cw \<le> scale (cropStep ResetEffect c) * fst (renderedSize cw ch nw nh)
    \<and> ch \<le> scale (cropStep ResetEffect c) * snd (renderedSize cw ch nw nh)"
  using reachable_scale_bounds [OF assms(1)] spec_minCoverScale_one [OF assms(2-5)]
    renderedSize_covers [OF assms(2-5)]
  by simp

lemma reachable_half:
  "reachable (cropStep (ZoomSlider 0) (cropStep (ImageLoad 2000 1000) initialCropper))"
  by (intro reach_zoom reach_load reach_init) simp_all

lemma reachable_panned:
  "reachable (cropStep (PointerMove \<lparr> clientX = 40, clientY = 25 \<rparr>)
     (cropStep (PointerDown \<lparr> clientX = 10, clientY = 20 \<rparr>)
       (cropStep (ZoomSlider 0) (cropStep (ImageLoad 2000 1000) initialCropper))))"
  by (intro reach_move reach_down reach_zoom reach_load reach_init) simp_all

text \<open>
  The slider pulled to its left end and the image dragged by (30, 5), after a 2000 by 1000
  image has loaded; then the reset.
\<close>

theorem scale_within_slider_range_witness:
  "reachable (cropStep (PointerMove \<lparr> clientX = 40, clientY = 25 \<rparr>)
     (cropStep (PointerDown \<lparr> clientX = 10, clientY = 20 \<rparr>)
       (cropStep (ZoomSlider 0) (cropStep (ImageLoad 2000 1000) initialCropper))))
   \<and> scale (cropStep (PointerMove \<lparr> clientX = 40, clientY = 25 \<rparr>)
     (cropStep (PointerDown \<lparr> clientX = 10, clientY = 20 \<rparr>)
       (cropStep (ZoomSlider 0) (cropStep (ImageLoad 2000 1000) initialCropper)))) = 1 / 2
   \<and> position_x (cropStep (PointerMove \<lparr> clientX = 40, clientY = 25 \<rparr>)
     (cropStep (PointerDown \<lparr> clientX = 10, clientY = 20 \<rparr>)
       (cropStep (ZoomSlider 0) (cropStep (ImageLoad 2000 1000) initialCropper)))) = 30
   \<and> position_y (cropStep (PointerMove \<lparr> clientX = 40, clientY = 25 \<rparr>)
     (cropStep (PointerDown \<lparr> clientX = 10, clientY = 20 \<rparr>)
       (cropStep (ZoomSlider 0) (cropStep (ImageLoad 2000 1000) initialCropper)))) = 5
   \<and> scale (cropStep ResetEffect (cropStep (PointerMove \<lparr> clientX = 40, clientY = 25 \<rparr>)
     (cropStep (PointerDown \<lparr> clientX = 10, clientY = 20 \<rparr>)
       (cropStep (ZoomSlider 0) (cropStep (ImageLoad 2000 1000) initialCropper))))) = 1
   \<and> position_x (cropStep ResetEffect (cropStep (PointerMove \<lparr> clientX = 40, clientY = 25 \<rparr>)
     (cropStep (PointerDown \<lparr> clientX = 10, clientY = 20 \<rparr>)
       (cropStep (ZoomSlider 0) (cropStep (ImageLoad 2000 1000) initialCropper))))) = 0
   \<and> position_y (cropStep ResetEffect (cropStep (PointerMove \<lparr> clientX = 40, clientY = 25 \<rparr>)
     (cropStep (PointerDown \<lparr> clientX = 10, clientY = 20 \<rparr>)
       (cropStep (ZoomSlider 0) (cropStep (ImageLoad 2000 1000) initialCropper))))) = 0
   \<and> renderedSize 300 300 2000 1000 = (600, 300)"
  using scale_within_slider_range [OF reachable_panned, of 300 300 2000 1000] reachable_panned
  by (simp add: sliderValue_def renderedSize_def Let_def initialCropper_def)

text \<open>
  C3 as stated fails: with the slider at its left end the scale is 0.5, below the minimum
  cover scale 1 of a 2000 by 1000 image in a 300 by 300 window, and the source rectangle
  the crop reads runs from y = -500 over a height of 2000, beyond the image on both sides.
\<close>

theorem scale_below_cover_counterexample:
  "reachable (cropStep (ZoomSlider 0) (cropStep (ImageLoad 2000 1000) initialCropper))
   \<and> scale (cropStep (ZoomSlider 0) (cropStep (ImageLoad 2000 1000) initialCropper))
       < spec_minCoverScale 300 300 2000 1000
   \<and> map_option (\<lambda>out. (sx out, sy out, sw out, sh out))
       (handleSave (Some \<lparr> rect_width = 300, rect_height = 300 \<rparr>) SQUARE
          (cropStep (ZoomSlider 0) (cropStep (ImageLoad 2000 1000) initialCropper)))
     = Some (0, - 500, 2000, 2000)"
  using reachable_half
  by (simp add: spec_minCoverScale_def renderedSize_def sliderValue_def handleSave_def
        mapDomToSource_def Let_def initialCropper_def)

section \<open>Failure of the layout service\<close>

text \<open>
  An error of \<open>ensureApiKey()\<close> or of \<open>getClient()\<close>, raised before the \<open>try\<close> block,
  is passed on as it is, whatever the call of the service would do.
\<close>

lemma setup_error_is_propagated:
  "snd (ensureApiKey w) = Some err \<Longrightarrow>
     generateLayoutConfig w client call = (fst (ensureApiKey w), Inl err)"
  "snd (ensureApiKey w) = None \<Longrightarrow>
     generateLayoutConfig w (Some err) call = (fst (ensureApiKey w), Inl err)"
  by (cases "ensureApiKey w"; simp add: generateLayoutConfig_def)+




section \<open>Statements on the canvas\<close>

lemma run_Nil: "run [] c = c"
  by (simp add: run_def)

lemma run_Cons: "run (f # fs) c = run fs (f c)"
  by (simp add: run_def)

lemma run_append: "run (fs @ gs) c = run gs (run fs c)"
  by (simp add: run_def)

lemma roundRect_effect: "roundRect px py w h r c = c \<lparr> path := roundRectPath px py w h r \<rparr>"
  by (cases c)
     (simp add: roundRect_def roundRectPath_def run_Cons run_Nil beginPath_def addSeg_def)

lemma fill_roundRect:
  "fill (roundRect px py w h r c)
     = c \<lparr> path := roundRectPath px py w h r,
           painted := painted c @ [(state c, Fill (roundRectPath px py w h r))] \<rparr>"
  by (cases c) (simp add: roundRect_effect fill_def paint_def)

section \<open>The sticker layer\<close>

lemma drawSticker_effect:
  "drawSticker w h s c =
     c \<lparr> painted := painted c @
           (if st_type s = Emoji then [(stickerState w h (state c) s, FillText (content s) 0 0)]
            else []) \<rparr>"
  by (cases c)
     (simp add: drawSticker_def stickerState_def run_Cons run_Nil run_append save_def restore_def
        applyTransform_def setFont_def setTextAlign_def setTextBaseline_def paint_def)

lemma drawStickers_effect:
  "drawStickers w h ss c =
     c \<lparr> painted := painted c @
           map (\<lambda>s. (stickerState w h (state c) s, FillText (content s) 0 0))
             (filter (\<lambda>s. st_type s = Emoji) ss) \<rparr>"
proof (induction ss arbitrary: c)
  case Nil
  show ?case by simp
next
  case (Cons s ss)
  show ?case
    by (cases c) (simp add: Cons.IH drawSticker_effect)
qed

lemma added_stickers_are_emoji:
  "\<forall>t \<in> set (stickers s). st_type t = Emoji \<Longrightarrow>
   \<forall>t \<in> set (stickers (addStickers ops s)). st_type t = Emoji"
  by (auto simp add: stickers_addStickers newSticker_def)

text \<open>
  C4, as the code has it: every sticker the application creates has the type emoji, the
  word presets such as NEW and OOTD included, and the sticker layer draws each of them, in
  list order, as its content filled at the local origin with a font of 0.15 times the
  canvas width, centred, after the translation to the sticker's position in percent of the
  canvas, the scaling and the rotation; the drawing state is afterwards what it was before.
  Of an arbitrary sticker list the layer draws the stickers of type emoji in this way, and
  those only.
\<close>

theorem emoji_stickers_drawn_in_order:
  assumes "stickers s = []"
  shows "painted (drawStickers w h (stickers (addStickers ops s)) c)
       = painted c @ map (\<lambda>t. (stickerState w h (state c) t, FillText (content t) 0 0))
                       (stickers (addStickers ops s))
    \<and> state (drawStickers w h (stickers (addStickers ops s)) c) = state c
    \<and> list_all (\<lambda>t. st_type t = Emoji) (stickers (addStickers ops s))
    \<and> painted (drawStickers w h ss c)
       = painted c @ map (\<lambda>t. (stickerState w h (state c) t, FillText (content t) 0 0))
                       (filter (\<lambda>t. st_type t = Emoji) ss)"
proof -
  have all: "\<forall>t \<in> set (stickers (addStickers ops s)). st_type t = Emoji"
    using assms added_stickers_are_emoji [of s ops] by simp
  then have "filter (\<lambda>t. st_type t = Emoji) (stickers (addStickers ops s))
      = stickers (addStickers ops s)"
    by (simp add: filter_id_conv)
  with all show ?thesis
    by (simp add: drawStickers_effect list_all_iff)
qed

text \<open>The presets NEW and A added to an empty list, on a 750 by 1000 canvas.\<close>

theorem emoji_stickers_witness:
  "stickers initialApp = []
   \<and> painted (drawStickers 750 1000
        (stickers (addStickers [(1000, ''NEW''), (1001, ''A'')] initialApp)) freshCanvas)
     = [ (defaultState \<lparr> font := \<lparr> font_weight = None, font_size = 112.5, font_family = ''serif'' \<rparr>,
                         textAlign := ''center'', textBaseline := ''middle'',
                         transform := [Translate 375 500, ScaleBy 1 1, Rotate 0] \<rparr>,
          FillText ''NEW'' 0 0),
         (defaultState \<lparr> font := \<lparr> font_weight = None, font_size = 112.5, font_family = ''serif'' \<rparr>,
                         textAlign := ''center'', textBaseline := ''middle'',
                         transform := [Translate 375 500, ScaleBy 1 1, Rotate 0] \<rparr>,
          FillText ''A'' 0 0) ]"
proof -
  have t: "transform defaultState = []"
    by (simp add: defaultState_def)
  show ?thesis
    using emoji_stickers_drawn_in_order
      [where s = initialApp and ops = "[(1000, ''NEW''), (1001, ''A'')]" and w = 750 and h = 1000
         and c = freshCanvas and ss = "[]"]
    by (simp add: initialApp_def handleAddSticker_def newSticker_def freshCanvas_def
          stickerState_def t)
qed

text \<open>
  C4 as stated fails: a sticker of type text is not rendered as text. The sticker "NEW" of
  type text at (50, 50) on a 750 by 1000 canvas leaves the canvas empty.
\<close>

theorem text_sticker_counterexample:
  "painted (drawStickers 750 1000
      [\<lparr> st_id = ''1'', st_type = Text, content = ''NEW'',
         st_x = 50, st_y = 50, st_scale = 1, rotation = 0 \<rparr>] freshCanvas) = []"
  by (simp add: drawSticker_effect freshCanvas_def)

section \<open>The subtitle layer\<close>

lemma subtitle_statements:
  "map (\<lambda>(st, d). (fillStyle st, d))
     (painted
       (run ([ setFillStyle (Colour ''rgba(0,0,0,0.3)''),
               roundRect x1 y1 pw ph r,
               fill ]
             @ (if bg \<noteq> ''transparent''
                then [ setFillStyle (Colour bg), roundRect x2 y2 pw ph r, fill ]
                else [])
             @ [ setFillStyle (Colour tx), paint (FillText sub sbx sby) ]) c))
   = map (\<lambda>(st, d). (fillStyle st, d)) (painted c)
     @ [(Colour ''rgba(0,0,0,0.3)'', Fill (roundRectPath x1 y1 pw ph r))]
     @ (if bg = ''transparent'' then [] else [(Colour bg, Fill (roundRectPath x2 y2 pw ph r))])
     @ [(Colour tx, FillText sub sbx sby)]"
  by (cases c)
     (simp add: run_append run_Cons run_Nil fill_roundRect setFillStyle_def paint_def)

lemma drop_to_suffix: "length ys = n \<Longrightarrow> drop (length (xs @ ys) - n) (xs @ ys) = ys"
  by simp

lemma length_subtitleLayer:
  "length (subtitleLayer m config w h) = (if subBgFinal config = ''transparent'' then 2 else 3)"
  by (simp add: subtitleLayer_def Let_def)

lemma drawLayoutText_split:
  "\<exists>pre. map (\<lambda>(st, d). (fillStyle st, d)) (painted (drawLayoutText m config t w h c))
        = pre @ subtitleLayer m config w h"
proof -
  define c' where "c' = run
        ([ setTextAlign ''center'', setTextBaseline ''middle'', setFont (titleFont config w h) ]
         @ drawTitleBackground m config t w h
         @ [ setLineJoin ''round'',
             setMiterLimit 2,
             setLineWidth (baseSize config w h * 0.08),
             setStrokeStyle (Colour (shadowColor config)),
             paint (StrokeText t (fst (titlePos config w h)) (snd (titlePos config w h))),
             setFillStyle (Colour (textColor config)),
             paint (FillText t (fst (titlePos config w h)) (snd (titlePos config w h))),
             setFont (subtitleFont config w h) ]) c"
  have "drawLayoutText m config t w h c =
      run ([ setFillStyle (Colour ''rgba(0,0,0,0.3)''),
               roundRect (fst (subPos config w h) - pillWidth m config w h / 2 + 4)
                 (snd (subPos config w h) - pillHeight config w h / 2 + 4)
                 (pillWidth m config w h) (pillHeight config w h) (pillHeight config w h / 2),
               fill ]
             @ (if subBgFinal config \<noteq> ''transparent''
                then [ setFillStyle (Colour (subBgFinal config)),
                       roundRect (fst (subPos config w h) - pillWidth m config w h / 2)
                         (snd (subPos config w h) - pillHeight config w h / 2)
                         (pillWidth m config w h) (pillHeight config w h) (pillHeight config w h / 2),
                       fill ]
                else [])
             @ [ setFillStyle (Colour (subTextFinal config)),
                 paint (FillText (subtitle config) (fst (subPos config w h)) (snd (subPos config w h))) ]) c'"
    unfolding drawLayoutText_def Let_def c'_def
    by (simp only: run_append run_Cons run_Nil append_Cons append_Nil)
  then have "map (\<lambda>(st, d). (fillStyle st, d)) (painted (drawLayoutText m config t w h c))
        = map (\<lambda>(st, d). (fillStyle st, d)) (painted c') @ subtitleLayer m config w h"
    by (simp only: subtitle_statements subtitleLayer_def Let_def)
  then show ?thesis by (rule exI)
qed

text \<open>
  C10: whatever the config, the title and the canvas before, the last drawing calls of
  \<open>drawLayoutText\<close> are the subtitle layer: the drop-shadow pill, filled with
  rgba(0,0,0,0.3) and offset by 4 pixels on both axes, then the background pill unless the
  effective background colour is transparent, then the subtitle text. With a transparent
  background these are two calls, the shadow pill and the text; otherwise three.
\<close>

theorem subtitle_shadow_pill_always_drawn:
  "drop (length (painted (drawLayoutText measureText config t w h c))
           - (if subBgFinal config = ''transparent'' then 2 else 3))
     (map (\<lambda>(st, d). (fillStyle st, d)) (painted (drawLayoutText measureText config t w h c)))
   = subtitleLayer measureText config w h"
proof -
  obtain pre where split:
    "map (\<lambda>(st, d). (fillStyle st, d)) (painted (drawLayoutText measureText config t w h c))
       = pre @ subtitleLayer measureText config w h"
    using drawLayoutText_split [of measureText config t w h c] by (elim exE)
  have len: "length (painted (drawLayoutText measureText config t w h c))
      = length (pre @ subtitleLayer measureText config w h)"
    using split by (metis length_map)
  show ?thesis
    unfolding len split
    by (rule drop_to_suffix) (rule length_subtitleLayer)
qed

text \<open>
  The fallback config with a transparent subtitle background on a 750 by 1000 canvas: the
  last two calls are the shadow pill at (98.2, 857.9), 4 pixels right of and below the
  pill's place, and the subtitle text at (375, 889).
\<close>

theorem subtitle_transparent_witness:
  "subBgFinal (fallbackConfig \<lparr> subtitleBackgroundColor := Some ''transparent'' \<rparr>) = ''transparent''
   \<and> drop (length (painted (drawLayoutText squareGlyphs
               (fallbackConfig \<lparr> subtitleBackgroundColor := Some ''transparent'' \<rparr>)
               ''OOTD'' 750 1000 freshCanvas)) - 2)
       (map (\<lambda>(st, d). (fillStyle st, d))
          (painted (drawLayoutText squareGlyphs
               (fallbackConfig \<lparr> subtitleBackgroundColor := Some ''transparent'' \<rparr>)
               ''OOTD'' 750 1000 freshCanvas)))
     = [(Colour ''rgba(0,0,0,0.3)'', Fill (roundRectPath 98.2 857.9 561.6 70.2 35.1)),
        (Colour ''#FFFFFF'', FillText (subtitle fallbackConfig) 375 889)]"
  using subtitle_shadow_pill_always_drawn
    [of squareGlyphs "fallbackConfig \<lparr> subtitleBackgroundColor := Some ''transparent'' \<rparr>"
        "''OOTD''" 750 1000 freshCanvas]
  by (simp add: subtitleLayer_def subBgFinal_def subTextFinal_def or_else_def subPos_def
        titlePos_def baseSize_def subtitleSize_def pillWidth_def pillHeight_def subtitleFont_def
        squareGlyphs_def nullish_def fallbackConfig_def Let_def)

section \<open>Rendering and export\<close>







end
